theory Spec2Isabelle
  imports Complex_Main "HOL-Library.Signed_Division"
begin

section \<open>The game server (socket.io variant) and the share ledger calls of lib.ts\<close>

text \<open>
  The embedding follows the socket.io server (the first program of the unnamed source
  part) and \<^verbatim>\<open>src/lib.ts\<close>. A JavaScript object used as a dictionary
  (\<^verbatim>\<open>Record<string, ...>\<close>) is an association list in the order in which
  \<^verbatim>\<open>Object.entries\<close> and \<^verbatim>\<open>Object.values\<close> enumerate it. The handlers
  mutate shared objects; the model passes the state explicitly and returns the list of
  calls a handler issues to the outside (ledger, webhook, broadcast) next to the new state.
  Numbers are IEEE doubles in the source; the model computes with exact reals, rationals
  and integers, so rounding is not modelled. The second program of the unnamed part, the
  older server on plain web sockets, has the same two collision loops and is not modelled
  separately.
\<close>

subsection \<open>Numbers and geometry\<close>

text \<open>
  A numeric field of a message or of a player. \<open>None\<close> stands for a field that is
  \<^verbatim>\<open>undefined\<close>, which arithmetic turns into \<^verbatim>\<open>NaN\<close>.
\<close>

type_synonym num = "real option"

text \<open>\<^verbatim>\<open>a - b\<close> on two such fields.\<close>

fun sub :: "num \<Rightarrow> num \<Rightarrow> num" where
  "sub (Some a) (Some b) = Some (a - b)"
| "sub _ _ = None"

text \<open>\<^verbatim>\<open>Math.hypot(a, b)\<close>.\<close>

fun hypot :: "num \<Rightarrow> num \<Rightarrow> num" where
  "hypot (Some a) (Some b) = Some (sqrt (a * a + b * b))"
| "hypot _ _ = None"

text \<open>\<^verbatim>\<open>dist = (a, b) => Math.hypot(a.x - b.x, a.y - b.y)\<close>, on the pairs \<open>(x, y)\<close>.\<close>

definition dist_xy :: "num \<times> num \<Rightarrow> num \<times> num \<Rightarrow> num" where
  "dist_xy a b = hypot (sub (fst a) (fst b)) (sub (snd a) (snd b))"

text \<open>\<^verbatim>\<open>d < r\<close>: a comparison with \<^verbatim>\<open>NaN\<close> is false.\<close>

fun lt :: "num \<Rightarrow> real \<Rightarrow> bool" where
  "lt (Some d) r = (d < r)"
| "lt None r = False"

definition playerRadius :: "int \<Rightarrow> int" where
  "playerRadius score = 10 + score"

definition foodRadius :: "int \<Rightarrow> int" where
  "foodRadius score = 10 + score"

text \<open>\<^verbatim>\<open>randPos = () => ({ x: Math.random() * 1920, y: Math.random() * 1080 })\<close> and
  \<^verbatim>\<open>randScore = () => Math.floor(Math.random() * 10) + 1\<close>, as functions of the values
  that \<^verbatim>\<open>Math.random()\<close> returned.\<close>

definition randPos :: "real \<Rightarrow> real \<Rightarrow> real \<times> real" where
  "randPos r1 r2 = (r1 * 1920, r2 * 1080)"

definition randScore :: "real \<Rightarrow> int" where
  "randScore r = \<lfloor>r * 10\<rfloor> + 1"

subsection \<open>Entities and the per-session state\<close>

record player =
  p_name :: string
  p_x :: num
  p_y :: num
  p_score :: int
  p_walletAddress :: string
  p_socketId :: string

record food_item =
  f_id :: string
  f_x :: real
  f_y :: real
  f_score :: int

record game =
  players :: "(string \<times> player) list"
  food :: "(string \<times> food_item) list"

text \<open>\<^verbatim>\<open>games\<close>: the process-wide registry, from game id to session.\<close>

type_synonym games = "string \<Rightarrow> game option"

text \<open>The variables \<^verbatim>\<open>gameId\<close> and \<^verbatim>\<open>playerId\<close> that each connection's closure holds
  (\<open>None\<close> is \<^verbatim>\<open>null\<close>), and the socket's id.\<close>

record conn =
  gameId :: "string option"
  playerId :: "string option"
  socket_id :: string

record join_msg =
  j_gameId :: string
  j_name :: string
  j_walletAddress :: "string option"

record move_msg =
  m_x :: num
  m_y :: num

text \<open>What one call of \<^verbatim>\<open>genId\<close>, \<^verbatim>\<open>randPos\<close> and \<^verbatim>\<open>randScore\<close> drew for one food
  entity: the id and the three values of \<^verbatim>\<open>Math.random()\<close>.\<close>

record draw =
  d_id :: string
  d_rx :: real
  d_ry :: real
  d_rs :: real

text \<open>The calls a handler issues to the outside, in order.\<close>

datatype effect =
    HandleFoodEat int string
  | Webhook string food_item string
  | HandleUserEat string string string
  | SocketJoin string
  | Broadcast string game

subsection \<open>Objects as dictionaries\<close>

text \<open>
  A key that is a canonical array index (\<^verbatim>\<open>"0"\<close>, \<^verbatim>\<open>"17"\<close>, below \<open>2^32 - 1\<close>) is
  enumerated before all other keys, in ascending numeric order; the other keys follow in
  the order of their creation.
\<close>

definition is_digit :: "char \<Rightarrow> bool" where
  "is_digit c = (48 \<le> (of_char c :: nat) \<and> (of_char c :: nat) \<le> 57)"

definition array_index :: "string \<Rightarrow> int option" where
  "array_index k =
     (if k = [] \<or> \<not> list_all is_digit k \<or> (hd k = CHR ''0'' \<and> 1 < length k) then None
      else let n = foldl (\<lambda>a c. 10 * a + (of_char c - 48)) (0::int) k
           in if n < 2 ^ 32 - 1 then Some n else None)"

fun insert_index :: "int \<Rightarrow> string \<times> 'a \<Rightarrow> (string \<times> 'a) list \<Rightarrow> (string \<times> 'a) list" where
  "insert_index n e [] = [e]"
| "insert_index n e (kv # xs) =
     (case array_index (fst kv) of
        Some m \<Rightarrow> if m < n then kv # insert_index n e xs else e # kv # xs
      | None \<Rightarrow> e # kv # xs)"

text \<open>A mutation of the object stored under \<open>k\<close>; nothing happens when the key is absent
  (the object is then no longer reachable from the dictionary).\<close>

definition store :: "string \<Rightarrow> 'a \<Rightarrow> (string \<times> 'a) list \<Rightarrow> (string \<times> 'a) list" where
  "store k v xs = map (\<lambda>kv. if fst kv = k then (k, v) else kv) xs"

text \<open>\<^verbatim>\<open>o[k] = v\<close>.\<close>

definition assign :: "string \<Rightarrow> 'a \<Rightarrow> (string \<times> 'a) list \<Rightarrow> (string \<times> 'a) list" where
  "assign k v xs =
     (if map_of xs k \<noteq> None then store k v xs
      else case array_index k of
             Some n \<Rightarrow> insert_index n (k, v) xs
           | None \<Rightarrow> xs @ [(k, v)])"

text \<open>\<^verbatim>\<open>delete o[k]\<close>.\<close>

definition delete :: "string \<Rightarrow> (string \<times> 'a) list \<Rightarrow> (string \<times> 'a) list" where
  "delete k xs = filter (\<lambda>kv. fst kv \<noteq> k) xs"

text \<open>\<^verbatim>\<open>!s\<close> for a variable that holds a string or \<^verbatim>\<open>null\<close>/\<^verbatim>\<open>undefined\<close>: the
  empty string is falsy too.\<close>

definition falsy :: "string option \<Rightarrow> bool" where
  "falsy s = (s = None \<or> s = Some [])"

subsection \<open>The join handler\<close>

text \<open>One round of the food spawn: \<^verbatim>\<open>const id = genId(); g.food[id] = { id, ...randPos(),
  score: randScore() }\<close>.\<close>

definition spawnOne :: "draw \<Rightarrow> (string \<times> food_item) list \<Rightarrow> (string \<times> food_item) list" where
  "spawnOne d fs =
     assign (d_id d)
       \<lparr>f_id = d_id d, f_x = fst (randPos (d_rx d) (d_ry d)),
        f_y = snd (randPos (d_rx d) (d_ry d)), f_score = randScore (d_rs d)\<rparr> fs"

text \<open>\<^verbatim>\<open>Array.from({ length: 20 }, () => ...)\<close>: twenty rounds, the \<open>i\<close>-th with the
  \<open>i\<close>-th draw.\<close>

definition spawnFood :: "(nat \<Rightarrow> draw) \<Rightarrow> (string \<times> food_item) list \<Rightarrow> (string \<times> food_item) list" where
  "spawnFood rnd fs = foldl (\<lambda>acc i. spawnOne (rnd i) acc) fs [0..<20]"

text \<open>The handler of \<^verbatim>\<open>join\<close>. \<open>newId\<close> is what \<^verbatim>\<open>genId()\<close> returned for the player,
  \<open>rnd\<close> the draws of the food spawn.\<close>

definition join :: "string \<Rightarrow> (nat \<Rightarrow> draw) \<Rightarrow> join_msg \<Rightarrow> conn \<times> games \<Rightarrow> (conn \<times> games) \<times> effect list" where
  "join newId rnd msg = (\<lambda>(c, W).
     if falsy (j_walletAddress msg) then ((c, W), [])
     else
       let gid = j_gameId msg;
           g = (case W gid of Some g0 \<Rightarrow> g0 | None \<Rightarrow> \<lparr>players = [], food = []\<rparr>);
           p = \<lparr>p_name = j_name msg, p_x = Some 500, p_y = Some 500, p_score = 0,
                p_walletAddress = (case j_walletAddress msg of Some w \<Rightarrow> w | None \<Rightarrow> []),
                p_socketId = socket_id c\<rparr>;
           g1 = g\<lparr>players := assign newId p (players g)\<rparr>;
           g2 = (if length (food g1) = 0 then g1\<lparr>food := spawnFood rnd (food g1)\<rparr> else g1)
       in ((c\<lparr>gameId := Some gid, playerId := Some newId\<rparr>, W(gid \<mapsto> g2)),
           [SocketJoin gid, Broadcast gid g2]))"

subsection \<open>The move handler\<close>

text \<open>The two collision tests of the handler.\<close>

definition foodHit :: "player \<Rightarrow> food_item \<Rightarrow> bool" where
  "foodHit pl f =
     lt (dist_xy (p_x pl, p_y pl) (Some (f_x f), Some (f_y f)))
        (real_of_int (playerRadius (p_score pl) + foodRadius (f_score f)))"

definition playerHit :: "player \<Rightarrow> player \<Rightarrow> bool" where
  "playerHit pl other =
     lt (dist_xy (p_x pl, p_y pl) (p_x other, p_y other))
        (real_of_int (playerRadius (p_score pl) + playerRadius (p_score other)))"

text \<open>
  The body of the food loop, for one food object of the snapshot
  \<^verbatim>\<open>Object.values(g.food)\<close>. The state is the mover's object, the food dictionary and
  the calls issued so far.
\<close>

definition foodStep ::
  "string \<Rightarrow> food_item \<Rightarrow> player \<times> (string \<times> food_item) list \<times> effect list
     \<Rightarrow> player \<times> (string \<times> food_item) list \<times> effect list" where
  "foodStep gid f = (\<lambda>(pl, fs, es).
     if foodHit pl f
     then (pl\<lparr>p_score := p_score pl + f_score f\<rparr>,
           delete (f_id f) fs,
           es @ [HandleFoodEat (f_score f) (p_walletAddress pl), Webhook (p_name pl) f gid])
     else (pl, fs, es))"

definition foodPass ::
  "string \<Rightarrow> player \<Rightarrow> (string \<times> food_item) list
     \<Rightarrow> player \<times> (string \<times> food_item) list \<times> effect list" where
  "foodPass gid pl fs = foldl (\<lambda>s f. foodStep gid f s) (pl, fs, []) (map snd fs)"

text \<open>
  The body of the player loop, for one entry \<open>(otherId, other)\<close> of the snapshot
  \<^verbatim>\<open>Object.entries(g.players)\<close>. \<open>pl\<close> is the mover's object, which the callback keeps
  using after \<^verbatim>\<open>delete g.players[playerId]\<close>; a change of its score is seen in the
  dictionary as long as the object is stored there. The \<^verbatim>\<open>return\<close> after the mover's
  deletion ends this call of the callback, not the \<^verbatim>\<open>forEach\<close>.
\<close>

definition playerStep ::
  "string \<Rightarrow> string \<Rightarrow> (string \<times> food_item) list \<Rightarrow> string \<times> player
     \<Rightarrow> player \<times> (string \<times> player) list \<times> effect list
     \<Rightarrow> player \<times> (string \<times> player) list \<times> effect list" where
  "playerStep gid pid fs = (\<lambda>(otherId, other) (pl, ps, es).
     if otherId \<noteq> pid then
       if playerHit pl other then
         if p_score pl > p_score other then
           let pl' = pl\<lparr>p_score := p_score pl + p_score other\<rparr>
           in (pl', delete otherId (store pid pl' ps),
               es @ [HandleUserEat (p_walletAddress other) (p_walletAddress pl) gid])
         else if p_score pl < p_score other then
           let other' = other\<lparr>p_score := p_score other + p_score pl\<rparr>;
               ps' = delete pid (store otherId other' ps)
           in (pl, ps',
               es @ [HandleUserEat (p_walletAddress pl) (p_walletAddress other) gid,
                     Broadcast gid \<lparr>players = ps', food = fs\<rparr>])
         else (pl, ps, es)
       else (pl, ps, es)
     else (pl, ps, es))"

definition playerPass ::
  "string \<Rightarrow> string \<Rightarrow> (string \<times> food_item) list \<Rightarrow> player \<Rightarrow> (string \<times> player) list
     \<Rightarrow> player \<times> (string \<times> player) list \<times> effect list" where
  "playerPass gid pid fs pl ps = foldl (\<lambda>s e. playerStep gid pid fs e s) (pl, ps, []) ps"

text \<open>The handler of \<^verbatim>\<open>move\<close>.\<close>

definition move :: "move_msg \<Rightarrow> conn \<times> games \<Rightarrow> (conn \<times> games) \<times> effect list" where
  "move msg = (\<lambda>(c, W).
     if falsy (gameId c) \<or> falsy (playerId c) then ((c, W), [])
     else
       case (gameId c, playerId c) of
         (Some gid, Some pid) \<Rightarrow>
           (case W gid of
              None \<Rightarrow> ((c, W), [])
            | Some g \<Rightarrow>
                (case map_of (players g) pid of
                   None \<Rightarrow> ((c, W), [])
                 | Some player0 \<Rightarrow>
                     let pl0 = player0\<lparr>p_x := m_x msg, p_y := m_y msg\<rparr>;
                         (pl1, fs, es1) = foodPass gid pl0 (food g);
                         (pl2, ps, es2) = playerPass gid pid fs pl1 (store pid pl1 (players g));
                         g' = \<lparr>players = ps, food = fs\<rparr>
                     in ((c, W(gid \<mapsto> g')), es1 @ es2 @ [Broadcast gid g'])))
       | _ \<Rightarrow> ((c, W), []))"

text \<open>The sum of the scores of the live players and the live food of a session.\<close>

definition totalScore :: "game \<Rightarrow> int" where
  "totalScore g = sum_list (map (\<lambda>kv. p_score (snd kv)) (players g))
                + sum_list (map (\<lambda>kv. f_score (snd kv)) (food g))"

subsection \<open>The ledger calls of lib.ts\<close>

text \<open>
  What the handlers read from the token pool contract: \<^verbatim>\<open>totalDeposits\<close>,
  \<^verbatim>\<open>getAllDepositors\<close> and the share that \<^verbatim>\<open>getUserInfo\<close> returns for an address.
  The contract itself is outside the repository; the handlers are modelled down to the
  write calls they issue, each taken to succeed. \<^verbatim>\<open>totalDeposits\<close> is used as a number,
  as the handler casts it; the shares are unsigned integers read as BigInts.
\<close>

record ledger =
  totalDeposits :: nat
  depositors :: "string list"
  userShare :: "string \<Rightarrow> nat"

text \<open>What the handlers log instead of writing: the exception of a loser without shares, a
  RangeError (of \<^verbatim>\<open>BigInt\<close> on a number that is not an integer, or of a BigInt division
  by zero), and the rejection of a redistribution that exceeds the others' shares.\<close>

datatype ledger_error =
    NoShares string
  | RangeError
  | NotEnoughShare

text \<open>
  \<^verbatim>\<open>handleUserEat(a, b, gameId)\<close>: the share of \<open>a\<close> is read; a share of zero throws
  (caught and logged, no write); otherwise two calls \<^verbatim>\<open>updateUserShare(a, 0)\<close> and
  \<^verbatim>\<open>updateUserShare(b, share)\<close> are issued, returned here in order.
\<close>

definition handleUserEat :: "ledger \<Rightarrow> string \<Rightarrow> string \<Rightarrow> ledger_error + (string \<times> int) list" where
  "handleUserEat L a b =
     (let share = int (userShare L a)
      in if share = 0 then Inl (NoShares a)
         else Inr [(a, 0), (b, share)])"

text \<open>
  \<^verbatim>\<open>updateUserShare(user, share)\<close> as the comments of \<^verbatim>\<open>handleUserEat\<close> read it
  (``Set a's share to 0'', ``Assign share to b''): the share of the user becomes the
  argument.
\<close>

definition updateUserShare :: "string \<times> int \<Rightarrow> (string \<Rightarrow> int) \<Rightarrow> (string \<Rightarrow> int)" where
  "updateUserShare w sh = sh((fst w) := snd w)"

text \<open>The shares after a settlement of \<^verbatim>\<open>handleUserEat\<close>: unchanged when it threw.\<close>

definition sharesAfterUserEat :: "ledger \<Rightarrow> string \<Rightarrow> string \<Rightarrow> (string \<Rightarrow> int)" where
  "sharesAfterUserEat L a b =
     (case handleUserEat L a b of
        Inl e \<Rightarrow> (\<lambda>u. int (userShare L u))
      | Inr ws \<Rightarrow> fold updateUserShare ws (\<lambda>u. int (userShare L u)))"







subsection \<open>Predicates of the frame property\<close>




subsection \<open>Example sessions\<close>

text \<open>A session \<open>g1\<close> with three players, the mover \<open>p\<close> (score 2) having joined last,
  and a move of \<open>p\<close> onto the position of the other two.\<close>

definition ex_conn :: conn where
  "ex_conn = \<lparr>gameId = Some ''g1'', playerId = Some ''p'', socket_id = ''s1''\<rparr>"

definition ex_P :: player where
  "ex_P = \<lparr>p_name = ''P'', p_x = Some 100, p_y = Some 100, p_score = 2,
            p_walletAddress = ''0xa'', p_socketId = ''s1''\<rparr>"

definition ex_O1 :: player where
  "ex_O1 = \<lparr>p_name = ''O1'', p_x = Some 500, p_y = Some 500, p_score = 5,
            p_walletAddress = ''0xb'', p_socketId = ''s2''\<rparr>"

definition ex_O2 :: player where
  "ex_O2 = \<lparr>p_name = ''O2'', p_x = Some 500, p_y = Some 500, p_score = 1,
            p_walletAddress = ''0xc'', p_socketId = ''s3''\<rparr>"

definition ex_game :: game where
  "ex_game = \<lparr>players = [(''o1'', ex_O1), (''o2'', ex_O2), (''p'', ex_P)], food = []\<rparr>"

definition ex_games :: games where
  "ex_games = Map.empty(''g1'' \<mapsto> ex_game)"

definition ex_move :: move_msg where
  "ex_move = \<lparr>m_x = Some 500, m_y = Some 500\<rparr>"

text \<open>A food entity of score 4 at the position of \<open>o1\<close>.\<close>

definition ex_F :: food_item where
  "ex_F = \<lparr>f_id = ''f1'', f_x = 500, f_y = 500, f_score = 4\<rparr>"

text \<open>A pool in which the loser \<open>0xa\<close> holds 5 share units and the winner \<open>0xb\<close> holds 3.\<close>

definition ex_ledger :: ledger where
  "ex_ledger = \<lparr>totalDeposits = 16, depositors = [''0xa'', ''0xb''],
                 userShare = (\<lambda>u. if u = ''0xa'' then 5 else if u = ''0xb'' then 3 else 0)\<rparr>"





text \<open>A session in which the mover \<open>p\<close> (score 1) reaches the score 5 of \<open>o1\<close> by
  eating the food at the position of \<open>o1\<close>.\<close>

definition ex_tied :: game where
  "ex_tied = \<lparr>players = [(''o1'', ex_O1), (''p'', ex_P\<lparr>p_score := 1\<rparr>)], food = [(''f1'', ex_F)]\<rparr>"

lemmas ex_defs = ex_conn_def ex_P_def ex_O1_def ex_O2_def ex_game_def ex_games_def ex_move_def

lemmas move_defs = move_def foodPass_def playerPass_def playerStep_def foodStep_def store_def
  delete_def playerHit_def foodHit_def dist_xy_def falsy_def playerRadius_def foodRadius_def
  Let_def

section \<open>Collision radius and the collision test\<close>




section \<open>The player pass after the mover was eaten\<close>

text \<open>
  C2. In the example session the mover \<open>p\<close> (score 2) moves onto \<open>o1\<close> (score 5) and
  \<open>o2\<close> (score 1). \<open>o1\<close> eats the mover, the state is broadcast, and the loop goes on:
  the removed mover is compared with \<open>o2\<close> and eats it, so a second transfer is issued
  and \<open>o2\<close> is gone from the final broadcast.
\<close>

theorem removed_mover_still_eats:
  "snd (move ex_move (ex_conn, ex_games)) =
     [HandleUserEat ''0xa'' ''0xb'' ''g1'',
      Broadcast ''g1'' \<lparr>players = [(''o1'', ex_O1\<lparr>p_score := 7\<rparr>), (''o2'', ex_O2)], food = []\<rparr>,
      HandleUserEat ''0xc'' ''0xa'' ''g1'',
      Broadcast ''g1'' \<lparr>players = [(''o1'', ex_O1\<lparr>p_score := 7\<rparr>)], food = []\<rparr>]"
  by (simp add: ex_defs move_defs)

section \<open>Ties\<close>

lemma playerStep_tie:
  "p_score pl = p_score other \<Longrightarrow>
   playerStep gid pid fs (otherId, other) (pl, ps, es) = (pl, ps, es)"
  by (simp add: playerStep_def)

lemma playerPass_all_tied:
  "(\<forall>kv\<in>set snap. fst kv \<noteq> pid \<longrightarrow> p_score (snd kv) = p_score pl) \<Longrightarrow>
   foldl (\<lambda>s e. playerStep gid pid fs e s) (pl, ps, es) snap = (pl, ps, es)"
proof (induction snap)
  case Nil
  then show ?case by simp
next
  case (Cons e snap)
  obtain k other where e: "e = (k, other)" by (cases e)
  have "playerStep gid pid fs e (pl, ps, es) = (pl, ps, es)"
  proof (cases "k = pid")
    case True
    then show ?thesis by (simp add: e playerStep_def)
  next
    case False
    with Cons.prems have "p_score pl = p_score other" by (simp add: e)
    then show ?thesis unfolding e by (rule playerStep_tie)
  qed
  with Cons show ?case by simp
qed

lemma store_others: "kv \<in> set (store k v xs) \<Longrightarrow> fst kv \<noteq> k \<Longrightarrow> kv \<in> set xs"
  by (auto simp: store_def split: if_splits)

lemma move_all_tied:
  assumes "gameId c = Some gid" "gid \<noteq> []" "playerId c = Some pid" "pid \<noteq> []"
    and "W gid = Some g" "map_of (players g) pid = Some p0"
    and fp: "foodPass gid (p0\<lparr>p_x := m_x msg, p_y := m_y msg\<rparr>) (food g) = (pl1, fs, es1)"
    and tied: "\<forall>kv\<in>set (players g). fst kv \<noteq> pid \<longrightarrow> p_score (snd kv) = p_score pl1"
  shows "move msg (c, W) =
     ((c, W(gid \<mapsto> \<lparr>players = store pid pl1 (players g), food = fs\<rparr>)),
      es1 @ [Broadcast gid \<lparr>players = store pid pl1 (players g), food = fs\<rparr>])"
proof -
  have "\<forall>kv\<in>set (store pid pl1 (players g)). fst kv \<noteq> pid \<longrightarrow> p_score (snd kv) = p_score pl1"
  proof (intro ballI impI)
    fix kv assume "kv \<in> set (store pid pl1 (players g))" "fst kv \<noteq> pid"
    then have "kv \<in> set (players g)" by (rule store_others)
    with tied \<open>fst kv \<noteq> pid\<close> show "p_score (snd kv) = p_score pl1" by simp
  qed
  then have "playerPass gid pid fs pl1 (store pid pl1 (players g))
           = (pl1, store pid pl1 (players g), [])"
    unfolding playerPass_def by (rule playerPass_all_tied)
  with assms(1-6) fp show ?thesis
    by (simp add: move_def falsy_def Let_def)
qed

text \<open>
  C4. When the mover and another player have exactly the same score at the moment the
  pair is compared, the step of the player loop for that pair changes nothing: both stay
  in the session with their scores and no call is issued, whether they overlap or not.
  When every other player of the session is tied with the mover, the whole player pass
  changes nothing and issues no call; a move after whose food pass every other player is
  tied with the mover only stores the mover's new position and score, removes the food
  eaten, and issues the calls of the food pass and one broadcast.
\<close>

theorem tie_never_resolves:
  "(p_score pl = p_score other \<longrightarrow>
      playerStep gid pid fs (otherId, other) (pl, ps, es) = (pl, ps, es))
   \<and> ((\<forall>kv\<in>set ps. fst kv \<noteq> pid \<longrightarrow> p_score (snd kv) = p_score pl) \<longrightarrow>
      playerPass gid pid fs pl ps = (pl, ps, []))
   \<and> (gameId c = Some gid \<and> gid \<noteq> [] \<and> playerId c = Some pid \<and> pid \<noteq> []
        \<and> W gid = Some g \<and> map_of (players g) pid = Some p0
        \<and> foodPass gid (p0\<lparr>p_x := m_x msg, p_y := m_y msg\<rparr>) (food g) = (pl1, fs1, es1)
        \<and> (\<forall>kv\<in>set (players g). fst kv \<noteq> pid \<longrightarrow> p_score (snd kv) = p_score pl1)
      \<longrightarrow> move msg (c, W) =
           ((c, W(gid \<mapsto> \<lparr>players = store pid pl1 (players g), food = fs1\<rparr>)),
            es1 @ [Broadcast gid \<lparr>players = store pid pl1 (players g), food = fs1\<rparr>]))"
proof (intro conjI impI)
  assume "p_score pl = p_score other"
  then show "playerStep gid pid fs (otherId, other) (pl, ps, es) = (pl, ps, es)"
    by (rule playerStep_tie)
next
  assume "\<forall>kv\<in>set ps. fst kv \<noteq> pid \<longrightarrow> p_score (snd kv) = p_score pl"
  then show "playerPass gid pid fs pl ps = (pl, ps, [])"
    unfolding playerPass_def by (rule playerPass_all_tied)
next
  assume "gameId c = Some gid \<and> gid \<noteq> [] \<and> playerId c = Some pid \<and> pid \<noteq> []
        \<and> W gid = Some g \<and> map_of (players g) pid = Some p0
        \<and> foodPass gid (p0\<lparr>p_x := m_x msg, p_y := m_y msg\<rparr>) (food g) = (pl1, fs1, es1)
        \<and> (\<forall>kv\<in>set (players g). fst kv \<noteq> pid \<longrightarrow> p_score (snd kv) = p_score pl1)"
  then have a: "gameId c = Some gid" "gid \<noteq> []" "playerId c = Some pid" "pid \<noteq> []"
    "W gid = Some g" "map_of (players g) pid = Some p0"
    "foodPass gid (p0\<lparr>p_x := m_x msg, p_y := m_y msg\<rparr>) (food g) = (pl1, fs1, es1)"
    "\<forall>kv\<in>set (players g). fst kv \<noteq> pid \<longrightarrow> p_score (snd kv) = p_score pl1"
    by blast+
  show "move msg (c, W) =
           ((c, W(gid \<mapsto> \<lparr>players = store pid pl1 (players g), food = fs1\<rparr>)),
            es1 @ [Broadcast gid \<lparr>players = store pid pl1 (players g), food = fs1\<rparr>])"
    by (rule move_all_tied [of c gid pid W g p0 msg pl1 fs1 es1, OF a])
qed

theorem tie_never_resolves_witness:
  "playerStep ''g1'' ''p'' [] (''o1'', ex_O1) (ex_P\<lparr>p_score := 5\<rparr>, players ex_tied, [])
     = (ex_P\<lparr>p_score := 5\<rparr>, players ex_tied, [])
   \<and> playerPass ''g1'' ''p'' [] (ex_P\<lparr>p_score := 5\<rparr>) [(''o1'', ex_O1), (''p'', ex_P\<lparr>p_score := 5\<rparr>)]
     = (ex_P\<lparr>p_score := 5\<rparr>, [(''o1'', ex_O1), (''p'', ex_P\<lparr>p_score := 5\<rparr>)], [])
   \<and> move ex_move (ex_conn, Map.empty(''g1'' \<mapsto> ex_tied)) =
       ((ex_conn, Map.empty(''g1'' \<mapsto>
            \<lparr>players = [(''o1'', ex_O1), (''p'', ex_P\<lparr>p_x := Some 500, p_y := Some 500, p_score := 5\<rparr>)],
             food = []\<rparr>)),
        [HandleFoodEat 4 ''0xa'', Webhook ''P'' ex_F ''g1'',
         Broadcast ''g1''
            \<lparr>players = [(''o1'', ex_O1), (''p'', ex_P\<lparr>p_x := Some 500, p_y := Some 500, p_score := 5\<rparr>)],
             food = []\<rparr>])"
proof -
  let ?pl1 = "ex_P\<lparr>p_x := Some 500, p_y := Some 500, p_score := 5\<rparr>"
  have 1: "p_score (ex_P\<lparr>p_score := 5\<rparr>) = p_score ex_O1" by (simp add: ex_O1_def)
  have 2: "\<forall>kv\<in>set [(''o1'', ex_O1), (''p'', ex_P\<lparr>p_score := 5\<rparr>)].
             fst kv \<noteq> ''p'' \<longrightarrow> p_score (snd kv) = p_score (ex_P\<lparr>p_score := 5\<rparr>)"
    by (simp add: ex_O1_def)
  have fp: "foodPass ''g1'' (ex_P\<lparr>p_score := 1, p_x := m_x ex_move, p_y := m_y ex_move\<rparr>) (food ex_tied)
            = (?pl1, [], [HandleFoodEat 4 ''0xa'', Webhook ''P'' ex_F ''g1''])"
    by (simp add: foodPass_def foodStep_def foodHit_def dist_xy_def playerRadius_def foodRadius_def
        delete_def ex_tied_def ex_P_def ex_F_def ex_move_def)
  have h1: "gameId ex_conn = Some ''g1''" and h3: "playerId ex_conn = Some ''p''"
    by (simp_all add: ex_conn_def)
  have h2: "''g1'' \<noteq> []" and h4: "''p'' \<noteq> []" by simp_all
  have h5: "(Map.empty(''g1'' \<mapsto> ex_tied)) ''g1'' = Some ex_tied" by simp
  have h6: "map_of (players ex_tied) ''p'' = Some (ex_P\<lparr>p_score := 1\<rparr>)"
    by (simp add: ex_tied_def)
  have h8: "\<forall>kv\<in>set (players ex_tied). fst kv \<noteq> ''p'' \<longrightarrow> p_score (snd kv) = p_score ?pl1"
    by (simp add: ex_tied_def ex_O1_def)
  have st: "store ''p'' ?pl1 (players ex_tied) = [(''o1'', ex_O1), (''p'', ?pl1)]"
    by (simp add: store_def ex_tied_def)
  have a: "playerStep ''g1'' ''p'' [] (''o1'', ex_O1) (ex_P\<lparr>p_score := 5\<rparr>, players ex_tied, [])
     = (ex_P\<lparr>p_score := 5\<rparr>, players ex_tied, [])"
    by (rule tie_never_resolves [THEN conjunct1, THEN mp, OF 1])
  have b: "playerPass ''g1'' ''p'' [] (ex_P\<lparr>p_score := 5\<rparr>) [(''o1'', ex_O1), (''p'', ex_P\<lparr>p_score := 5\<rparr>)]
     = (ex_P\<lparr>p_score := 5\<rparr>, [(''o1'', ex_O1), (''p'', ex_P\<lparr>p_score := 5\<rparr>)], [])"
    by (rule tie_never_resolves [THEN conjunct2, THEN conjunct1, THEN mp, OF 2])
  note prem = conjI [OF h1 conjI [OF h2 conjI [OF h3 conjI [OF h4 conjI [OF h5
      conjI [OF h6 conjI [OF fp h8]]]]]]]
  have "move ex_move (ex_conn, Map.empty(''g1'' \<mapsto> ex_tied)) =
       ((ex_conn, (Map.empty(''g1'' \<mapsto> ex_tied))(''g1'' \<mapsto>
            \<lparr>players = store ''p'' ?pl1 (players ex_tied), food = []\<rparr>)),
        [HandleFoodEat 4 ''0xa'', Webhook ''P'' ex_F ''g1''] @
         [Broadcast ''g1'' \<lparr>players = store ''p'' ?pl1 (players ex_tied), food = []\<rparr>])"
    by (rule tie_never_resolves [where c = ex_conn and gid = "''g1''" and pid = "''p''"
          and W = "Map.empty(''g1'' \<mapsto> ex_tied)" and g = ex_tied
          and ?p0.0 = "ex_P\<lparr>p_score := 1\<rparr>" and msg = ex_move and ?pl1.0 = ?pl1
          and ?fs1.0 = "[]" and ?es1.0 = "[HandleFoodEat 4 ''0xa'', Webhook ''P'' ex_F ''g1'']",
          THEN conjunct2, THEN conjunct2, THEN mp, OF prem])
  then have c: "move ex_move (ex_conn, Map.empty(''g1'' \<mapsto> ex_tied)) =
       ((ex_conn, Map.empty(''g1'' \<mapsto>
            \<lparr>players = [(''o1'', ex_O1), (''p'', ?pl1)], food = []\<rparr>)),
        [HandleFoodEat 4 ''0xa'', Webhook ''P'' ex_F ''g1'',
         Broadcast ''g1'' \<lparr>players = [(''o1'', ex_O1), (''p'', ?pl1)], food = []\<rparr>])"
    by (simp add: st)
  from a b c show ?thesis by (intro conjI)
qed

section \<open>Joining\<close>

text \<open>
  C7. A join message whose wallet address is absent or the empty string changes nothing:
  the connection's variables and the registry stay as they were (no session, player or
  food is created) and no call is issued, in particular no broadcast.
\<close>

theorem join_without_wallet_ignored:
  "falsy (j_walletAddress msg) \<Longrightarrow> join newId rnd msg (c, W) = ((c, W), [])"
  by (simp add: join_def)

theorem join_without_wallet_ignored_witness:
  "join ''id1'' (\<lambda>i. \<lparr>d_id = ''f'', d_rx = 0, d_ry = 0, d_rs = 0\<rparr>)
     \<lparr>j_gameId = ''g1'', j_name = ''n'', j_walletAddress = Some []\<rparr> (ex_conn, ex_games)
   = ((ex_conn, ex_games), [])"
  using join_without_wallet_ignored
    [of "\<lparr>j_gameId = ''g1'', j_name = ''n'', j_walletAddress = Some []\<rparr>"
      "''id1''" "\<lambda>i. \<lparr>d_id = ''f'', d_rx = 0, d_ry = 0, d_rs = 0\<rparr>" ex_conn ex_games]
  by (simp add: falsy_def)

section \<open>Score accounting\<close>

text \<open>
  C8. In the example session the scores of the live players sum to 8 before the move and
  to 7 after it: the second consumption event, by the mover that was already removed,
  removes \<open>o2\<close> and raises the score of no live player.
\<close>

theorem total_not_conserved:
  "totalScore ex_game = 8 \<and>
   map_option totalScore (snd (fst (move ex_move (ex_conn, ex_games))) ''g1'') = Some 7"
  by (simp add: ex_defs move_defs totalScore_def)

section \<open>Settlement of a player eaten\<close>

text \<open>
  C1. In the example pool the loser \<open>0xa\<close> holds 5 share units and the winner \<open>0xb\<close>
  holds 3. The settlement writes 0 for the loser and 5 for the winner: the winner ends
  with the loser's previous share, not with the sum 8 of both.
\<close>

theorem transfer_overwrites_winner:
  "handleUserEat ex_ledger ''0xa'' ''0xb'' = Inr [(''0xa'', 0), (''0xb'', 5)]
   \<and> userShare ex_ledger ''0xa'' = 5 \<and> userShare ex_ledger ''0xb'' = 3
   \<and> sharesAfterUserEat ex_ledger ''0xa'' ''0xb'' ''0xa'' = 0
   \<and> sharesAfterUserEat ex_ledger ''0xa'' ''0xb'' ''0xb'' = 5"
  by (simp add: handleUserEat_def sharesAfterUserEat_def updateUserShare_def ex_ledger_def)

section \<open>Settlement of a food eaten\<close>



















section \<open>Food spawn at join\<close>













section \<open>Moves without a live player, and moves without coordinates\<close>










section \<open>The frame of a move\<close>
















end
